theory Spec2Isabelle
  imports Main "HOL-Library.Sublist"
begin

section \<open>Strings and the pieces of Python the program uses\<close>

text \<open>
  The program is \<^verbatim>\<open>app.py\<close>, a Streamlit script. A Python \<^verbatim>\<open>str\<close> is modelled as a
  \<^typ>\<open>string\<close>, one \<^typ>\<open>char\<close> per code point (code points below 256). The only
  characters the program tells apart are the ASCII ones named in its source.
\<close>

text \<open>\<^verbatim>\<open>s.split(sep)\<close> for a separator of one character: the list of the pieces between
  the occurrences of \<^verbatim>\<open>sep\<close>. It is never empty, so the last case of the inner
  \<open>case\<close> is never taken.\<close>

fun split_chr :: "char \<Rightarrow> string \<Rightarrow> string list" where
  "split_chr sep [] = [[]]"
| "split_chr sep (c # cs) =
     (if c = sep then [] # split_chr sep cs
      else (case split_chr sep cs of
              w # ws \<Rightarrow> (c # w) # ws
            | [] \<Rightarrow> [[c]]))"

text \<open>\<^verbatim>\<open>s.startswith(p)\<close>.\<close>

fun startswith :: "string \<Rightarrow> string \<Rightarrow> bool" where
  "startswith s [] = True"
| "startswith [] (p # ps) = False"
| "startswith (c # cs) (p # ps) = (c = p \<and> startswith cs ps)"

text \<open>\<^verbatim>\<open>sep.join(xs)\<close>.\<close>

fun join :: "string \<Rightarrow> string list \<Rightarrow> string" where
  "join sep [] = []"
| "join sep [x] = x"
| "join sep (x # y # ys) = x @ sep @ join sep (y # ys)"

text \<open>Truth value of a value that is \<^verbatim>\<open>None\<close> or a \<^verbatim>\<open>str\<close>: \<^verbatim>\<open>None\<close> and the empty
  string are false.\<close>

fun truthy :: "string option \<Rightarrow> bool" where
  "truthy None = False"
| "truthy (Some s) = (s \<noteq> [])"

text \<open>\<^verbatim>\<open>str(x)\<close> in an f-string, for a value that is \<^verbatim>\<open>None\<close> or a \<^verbatim>\<open>str\<close>.\<close>

fun str_of :: "string option \<Rightarrow> string" where
  "str_of None = ''None''"
| "str_of (Some s) = s"

text \<open>\<^verbatim>\<open>os.path.join(a, b)\<close> of \<^verbatim>\<open>posixpath\<close>.\<close>

definition path_join :: "string \<Rightarrow> string \<Rightarrow> string" where
  "path_join a b =
     (if startswith b ''/'' then b
      else if a = [] \<or> last a = CHR ''/'' then a @ b
      else a @ ''/'' @ b)"

section \<open>The regular expressions of \<^verbatim>\<open>extract_video_id\<close>\<close>

text \<open>The character class \<^verbatim>\<open>[0-9A-Za-z_-]\<close>, by code point.\<close>

definition is_id_char :: "char \<Rightarrow> bool" where
  "is_id_char c =
     (let n = (of_char c :: nat) in
        (48 \<le> n \<and> n \<le> 57) \<or> (65 \<le> n \<and> n \<le> 90) \<or> (97 \<le> n \<and> n \<le> 122)
        \<or> c = CHR ''_'' \<or> c = CHR ''-'')"

text \<open>The group \<^verbatim>\<open>([0-9A-Za-z_-]{11})\<close> matched at the start of \<open>s\<close>: exactly eleven
  characters of the class, which the group captures.\<close>

definition group11 :: "string \<Rightarrow> string option" where
  "group11 s =
     (if 11 \<le> length s \<and> list_all is_id_char (take 11 s) then Some (take 11 s) else None)"

text \<open>
  Each of the three patterns is a choice of literal prefixes followed by the group:
  \<^verbatim>\<open>(?:v=|/)([0-9A-Za-z_-]{11}).*\<close> has the prefixes \<^verbatim>\<open>v=\<close> and \<^verbatim>\<open>/\<close>,
  \<^verbatim>\<open>youtu\.be/([0-9A-Za-z_-]{11})\<close> the prefix \<^verbatim>\<open>youtu.be/\<close>, and
  \<^verbatim>\<open>embed/([0-9A-Za-z_-]{11})\<close> the prefix \<^verbatim>\<open>embed/\<close>. The trailing \<^verbatim>\<open>.*\<close> of the
  first pattern matches the empty string, so it never makes a match fail and does not change
  the group. \<open>match_here\<close> is a match anchored at the start of \<open>s\<close>, the alternatives
  tried from left to right; its value is group 1.
\<close>

type_synonym pattern = "string list"

fun match_here :: "pattern \<Rightarrow> string \<Rightarrow> string option" where
  "match_here [] s = None"
| "match_here (p # ps) s =
     (if startswith s p then
        (case group11 (drop (length p) s) of
           Some g \<Rightarrow> Some g
         | None \<Rightarrow> match_here ps s)
      else match_here ps s)"

text \<open>\<^verbatim>\<open>re.search(pattern, url)\<close>: the match at the leftmost position that has one;
  \<open>None\<close> when no position has.\<close>

fun re_search :: "pattern \<Rightarrow> string \<Rightarrow> string option" where
  "re_search pat [] = match_here pat []"
| "re_search pat (c # cs) =
     (case match_here pat (c # cs) of
        Some g \<Rightarrow> Some g
      | None \<Rightarrow> re_search pat cs)"

definition patterns :: "pattern list" where
  "patterns = [[''v='', ''/''], [''youtu.be/''], [''embed/'']]"

section \<open>\<^verbatim>\<open>extract_video_id\<close>\<close>

text \<open>The first statement of the function:
  \<^verbatim>\<open>url = url.split('&')[0].split('?')[0] if '?' in url else url\<close>.\<close>

definition strip_params :: "string \<Rightarrow> string" where
  "strip_params url =
     (if CHR ''?'' \<in> set url
      then hd (split_chr CHR ''?'' (hd (split_chr CHR ''&'' url)))
      else url)"

text \<open>The loop over the patterns: the first pattern that matches with a group of length 11
  gives the result.\<close>

fun first_match :: "pattern list \<Rightarrow> string \<Rightarrow> string option" where
  "first_match [] url = None"
| "first_match (pat # pats) url =
     (case re_search pat url of
        Some video_id \<Rightarrow>
          if length video_id = 11 then Some video_id else first_match pats url
      | None \<Rightarrow> first_match pats url)"

definition extract_video_id :: "string \<Rightarrow> string option" where
  "extract_video_id url = first_match patterns (strip_params url)"

section \<open>Collaborators, the file system and the trace of a run\<close>

text \<open>An exception of class \<^verbatim>\<open>Exception\<close>, which is what every \<^verbatim>\<open>except Exception as e\<close>
  of the program catches; \<open>message e\<close> is \<^verbatim>\<open>str(e)\<close>. A computation that may raise has a
  result of type \<open>exn + 'a\<close>, \<open>Inl\<close> the exception.\<close>

datatype exn = Exception (message: string)

text \<open>An entry of \<^verbatim>\<open>fetched_transcript.to_raw_data()\<close>. The program reads the key
  \<^verbatim>\<open>'text'\<close> only.\<close>

record snippet =
  snippet_text :: string

text \<open>The file system, as far as the program looks at it: a directory path is mapped to
  the names \<^verbatim>\<open>os.listdir\<close> gives for it, in that order.\<close>

type_synonym fs = "string \<rightharpoonup> string list"

text \<open>
  The three external libraries and the name \<^verbatim>\<open>tempfile\<close> picks are parameters of the model:
  \<^item> \<open>fetch video_id\<close> is \<^verbatim>\<open>YouTubeTranscriptApi().fetch(video_id).to_raw_data()\<close>;
  \<^item> \<open>ydl_download video_url outtmpl fs\<close> is \<^verbatim>\<open>ydl.download([video_url])\<close> in a
    \<^verbatim>\<open>YoutubeDL\<close> whose \<^verbatim>\<open>'outtmpl'\<close> is \<open>outtmpl\<close>: the exception it raises, if any, and
    the file system it leaves;
  \<^item> \<open>whisper_transcribe audio_path model_size\<close> is
    \<^verbatim>\<open>load_whisper_model(model_size).transcribe(audio_path)["text"]\<close>;
  \<^item> \<open>temp_name\<close> is the path of the directory \<^verbatim>\<open>tempfile.TemporaryDirectory()\<close> creates.
\<close>

record env =
  fetch :: "string \<Rightarrow> exn + snippet list"
  ydl_download :: "string \<Rightarrow> string \<Rightarrow> fs \<Rightarrow> exn option \<times> fs"
  whisper_transcribe :: "string \<Rightarrow> string \<Rightarrow> exn + string"
  temp_name :: string

text \<open>What a run does, in order: the calls of the three stage functions, the calls of the
  collaborators and of the file system, and the calls of Streamlit that show something.
  The pictograph that starts most messages of the source is left out of the strings.\<close>

datatype event =
    Get_existing_transcript string
  | Fetch string
  | Download_audio string string
  | Ydl_download string string
  | Transcribe_with_whisper string string
  | Whisper_transcribe string string
  | Mkdtemp string
  | Listdir string
  | Cleanup string
  | Status string
  | Progress nat
  | St_error string
  | St_success string
  | St_info string
  | Text_area string string
  | Download_button string string
  | Empty_indicators

text \<open>\<^verbatim>\<open>os.listdir(path)\<close>.\<close>

definition listdir :: "fs \<Rightarrow> string \<Rightarrow> exn + string list" where
  "listdir fs path =
     (case fs path of
        None \<Rightarrow> Inl (Exception (''[Errno 2] No such file or directory: '' @ path))
      | Some names \<Rightarrow> Inr names)"

text \<open>What leaving the \<^verbatim>\<open>with tempfile.TemporaryDirectory()\<close> block does: the directory and
  everything below it is removed.\<close>

definition rmtree :: "string \<Rightarrow> fs \<Rightarrow> fs" where
  "rmtree d fs = (\<lambda>p. if p = d \<or> prefix (d @ ''/'') p then None else fs p)"

section \<open>The three stage functions\<close>

text \<open>The \<^verbatim>\<open>try\<close> block of \<^verbatim>\<open>get_existing_transcript\<close>.\<close>

definition get_existing_transcript_try ::
  "env \<Rightarrow> string \<Rightarrow> (exn + string option \<times> string) \<times> event list" where
  "get_existing_transcript_try env video_url =
     (case extract_video_id video_url of
        None \<Rightarrow> (Inr (None, ''Invalid URL''), [])
      | Some video_id \<Rightarrow>
          if video_id = [] then (Inr (None, ''Invalid URL''), [])
          else
            (case fetch env video_id of
               Inl e \<Rightarrow> (Inl e, [Fetch video_id])
             | Inr raw_data \<Rightarrow>
                 (Inr (Some (join [CHR 0x0A] (map snippet_text raw_data)), ''captions''),
                  [Fetch video_id])))"

text \<open>The function with its handler \<^verbatim>\<open>except Exception as e\<close>.\<close>

definition get_existing_transcript ::
  "env \<Rightarrow> string \<Rightarrow> (exn + string option \<times> string) \<times> event list" where
  "get_existing_transcript env video_url =
     (case get_existing_transcript_try env video_url of
        (Inl e, tr) \<Rightarrow>
          (Inr (None, ''No captions: '' @ message e), Get_existing_transcript video_url # tr)
      | (Inr r, tr) \<Rightarrow> (Inr r, Get_existing_transcript video_url # tr))"

definition download_audio ::
  "env \<Rightarrow> string \<Rightarrow> string \<Rightarrow> fs \<Rightarrow> (exn + bool) \<times> event list \<times> fs" where
  "download_audio env video_url output_path fs =
     (case ydl_download env video_url output_path fs of
        (None, fs') \<Rightarrow>
          (Inr True,
           [Download_audio video_url output_path, Ydl_download video_url output_path], fs')
      | (Some e, fs') \<Rightarrow>
          (Inr False,
           [Download_audio video_url output_path, Ydl_download video_url output_path,
            St_error (''Audio download failed: '' @ message e)], fs'))"

definition transcribe_with_whisper ::
  "env \<Rightarrow> string \<Rightarrow> string \<Rightarrow> (exn + string option \<times> string) \<times> event list" where
  "transcribe_with_whisper env audio_path model_size =
     (case whisper_transcribe env audio_path model_size of
        Inr result_text \<Rightarrow>
          (Inr (Some result_text, ''whisper''),
           [Transcribe_with_whisper audio_path model_size,
            Whisper_transcribe audio_path model_size])
      | Inl e \<Rightarrow>
          (Inr (None, ''Transcription failed: '' @ message e),
           [Transcribe_with_whisper audio_path model_size,
            Whisper_transcribe audio_path model_size]))"

section \<open>The pipeline of the button ``Generate Transcript''\<close>

text \<open>What the two successful branches show. \<^verbatim>\<open>st.tabs\<close> and \<^verbatim>\<open>st.columns\<close> only lay the
  page out and are left out.\<close>

definition show_captions :: "string \<Rightarrow> string \<Rightarrow> event list" where
  "show_captions video_url transcript =
     [Status ''Found existing captions!'', Progress 100,
      St_success ''Transcript generated successfully using existing captions!'',
      Text_area ''Transcript Content'' transcript,
      Download_button transcript
        (''transcript_'' @ str_of (extract_video_id video_url) @ ''.txt''),
      St_info ''You can also copy the text directly from the transcript area above'']"

definition show_whisper :: "string \<Rightarrow> string \<Rightarrow> string \<Rightarrow> event list" where
  "show_whisper video_url whisper_model transcript =
     [Status ''AI transcription completed!'', Progress 100,
      St_success ''Transcript generated successfully using AI speech recognition!'',
      Text_area ''AI-Generated Transcript'' transcript,
      Download_button transcript
        (''ai_transcript_'' @ str_of (extract_video_id video_url) @ ''.txt''),
      St_info (''Generated using Whisper '' @ [CHR 0x27] @ whisper_model @ [CHR 0x27]
               @ '' model'')]"

text \<open>The body of the \<^verbatim>\<open>with\<close> block. The first component of the result is the exception
  that leaves the block, if any.\<close>

definition with_body ::
  "env \<Rightarrow> string \<Rightarrow> string \<Rightarrow> string \<Rightarrow> fs \<Rightarrow> exn option \<times> event list \<times> fs" where
  "with_body env video_url whisper_model temp_dir fs =
     (let audio_path = path_join temp_dir ''audio.%(ext)s'' in
      case download_audio env video_url audio_path fs of
        (Inl e, tr1, fs1) \<Rightarrow> (Some e, tr1, fs1)
      | (Inr ok, tr1, fs1) \<Rightarrow>
          if ok then
            (let tr2 = tr1 @ [Status ''Transcribing with Whisper AI...'', Progress 70,
                              Listdir temp_dir] in
             case listdir fs1 temp_dir of
               Inl e \<Rightarrow> (Some e, tr2, fs1)
             | Inr names \<Rightarrow>
                 (let audio_files = filter (\<lambda>f. startswith f ''audio'') names in
                  if audio_files \<noteq> [] then
                    (let actual_audio_path = path_join temp_dir (hd audio_files) in
                     case transcribe_with_whisper env actual_audio_path whisper_model of
                       (Inl e, tr3) \<Rightarrow> (Some e, tr2 @ tr3, fs1)
                     | (Inr (transcript, method), tr3) \<Rightarrow>
                         (case transcript of
                            Some t \<Rightarrow>
                              if t \<noteq> [] then
                                (None, tr2 @ tr3 @ show_whisper video_url whisper_model t, fs1)
                              else
                                (None, tr2 @ tr3 @ [St_error ''Failed to transcribe audio''],
                                 fs1)
                          | None \<Rightarrow>
                              (None, tr2 @ tr3 @ [St_error ''Failed to transcribe audio''],
                               fs1)))
                  else
                    (None, tr2 @ [St_error ''Audio file not found after download''], fs1)))
          else (None, tr1 @ [St_error ''Failed to download video audio''], fs1))"

text \<open>\<^verbatim>\<open>with tempfile.TemporaryDirectory() as temp_dir: body\<close>: the directory is created
  empty, the body runs, and the directory is removed however the body ends.\<close>

definition with_temporary_directory ::
  "string \<Rightarrow> (string \<Rightarrow> fs \<Rightarrow> exn option \<times> event list \<times> fs) \<Rightarrow> fs
     \<Rightarrow> exn option \<times> event list \<times> fs" where
  "with_temporary_directory temp_dir body fs =
     (case body temp_dir (fs(temp_dir \<mapsto> [])) of
        (r, tr, fs') \<Rightarrow>
          (r, Mkdtemp temp_dir # tr @ [Cleanup temp_dir], rmtree temp_dir fs'))"

text \<open>The \<^verbatim>\<open>try\<close> block of the button's handler.\<close>

definition pipeline_try ::
  "env \<Rightarrow> string \<Rightarrow> string \<Rightarrow> fs \<Rightarrow> exn option \<times> event list \<times> fs" where
  "pipeline_try env video_url whisper_model fs =
     (let tr0 = [Status ''Checking for existing captions...'', Progress 20] in
      case get_existing_transcript env video_url of
        (Inl e, trc) \<Rightarrow> (Some e, tr0 @ trc, fs)
      | (Inr (transcript, method), trc) \<Rightarrow>
          if truthy transcript \<and> method = ''captions'' then
            (None, tr0 @ trc @ show_captions video_url (str_of transcript), fs)
          else
            (case with_temporary_directory (temp_name env)
                    (with_body env video_url whisper_model) fs of
               (r, tr, fs') \<Rightarrow>
                 (r, tr0 @ trc @ [Status ''No captions found. Downloading audio...'',
                                   Progress 40] @ tr, fs')))"

text \<open>The handler: \<^verbatim>\<open>if video_url:\<close>, the \<^verbatim>\<open>try\<close> block, its \<^verbatim>\<open>except Exception\<close> and its
  \<^verbatim>\<open>finally\<close>. The result is the trace of the run and the file system it leaves.\<close>

definition generate_transcript ::
  "env \<Rightarrow> string \<Rightarrow> string \<Rightarrow> fs \<Rightarrow> event list \<times> fs" where
  "generate_transcript env video_url whisper_model fs =
     (if video_url \<noteq> [] then
        (case pipeline_try env video_url whisper_model fs of
           (None, tr, fs') \<Rightarrow> (tr @ [Empty_indicators], fs')
         | (Some e, tr, fs') \<Rightarrow>
             (tr @ [St_error (''An error occurred: '' @ message e), Empty_indicators], fs'))
      else ([St_error ''Please enter a YouTube URL''], fs))"

section \<open>Observations on a trace\<close>

datatype stage = CheckingCaptions | DownloadingAudio | Transcribing

fun stage_of :: "event \<Rightarrow> stage option" where
  "stage_of (Get_existing_transcript u) = Some CheckingCaptions"
| "stage_of (Download_audio u p) = Some DownloadingAudio"
| "stage_of (Transcribe_with_whisper p m) = Some Transcribing"
| "stage_of e = None"

text \<open>The stage functions a run calls, in the order of the calls.\<close>

definition stages :: "event list \<Rightarrow> stage list" where
  "stages tr = List.map_filter stage_of tr"

fun is_collaborator_call :: "event \<Rightarrow> bool" where
  "is_collaborator_call (Fetch v) = True"
| "is_collaborator_call (Ydl_download u p) = True"
| "is_collaborator_call (Whisper_transcribe p m) = True"
| "is_collaborator_call e = False"

fun is_error :: "event \<Rightarrow> bool" where
  "is_error (St_error m) = True"
| "is_error e = False"

fun is_success :: "event \<Rightarrow> bool" where
  "is_success (St_success m) = True"
| "is_success e = False"

text \<open>A run has failed when it has shown an error and no success.\<close>

definition failed :: "event list \<Rightarrow> bool" where
  "failed tr = (list_ex is_error tr \<and> \<not> list_ex is_success tr)"

text \<open>The guard \<^verbatim>\<open>if transcript and method == "captions"\<close> on the result of the captions
  stage.\<close>

definition captions_ok :: "env \<Rightarrow> string \<Rightarrow> bool" where
  "captions_ok env video_url =
     (case fst (get_existing_transcript env video_url) of
        Inl e \<Rightarrow> False
      | Inr (transcript, method) \<Rightarrow> truthy transcript \<and> method = ''captions'')"

text \<open>The call of the download library that a run makes when it reaches the download stage:
  its template and its result.\<close>

definition audio_template :: "env \<Rightarrow> string" where
  "audio_template env = path_join (temp_name env) ''audio.%(ext)s''"

definition download_result :: "env \<Rightarrow> string \<Rightarrow> fs \<Rightarrow> exn option \<times> fs" where
  "download_result env video_url fs =
     ydl_download env video_url (audio_template env) (fs(temp_name env \<mapsto> []))"

section \<open>Concrete collaborators\<close>

text \<open>Environments on which the theorems below are run. The temporary directory is
  \<^verbatim>\<open>/tmp/tmpk3x9\<close> in all of them, and the file system starts empty.\<close>

definition fs0 :: fs where
  "fs0 = Map.empty"

definition two_snippets :: "snippet list" where
  "two_snippets = [\<lparr>snippet_text = ''hello''\<rparr>, \<lparr>snippet_text = ''world''\<rparr>]"

definition blank_snippet :: "snippet list" where
  "blank_snippet = [\<lparr>snippet_text = []\<rparr>]"

definition captions_disabled :: exn where
  "captions_disabled = Exception ''Subtitles are disabled for this video''"

definition download_refused :: "string \<Rightarrow> string \<Rightarrow> fs \<Rightarrow> exn option \<times> fs" where
  "download_refused video_url outtmpl fs = (Some (Exception ''Video unavailable''), fs)"

definition download_webm :: "string \<Rightarrow> string \<Rightarrow> fs \<Rightarrow> exn option \<times> fs" where
  "download_webm video_url outtmpl fs = (None, fs(''/tmp/tmpk3x9'' \<mapsto> [''audio.webm'']))"

definition download_nothing :: "string \<Rightarrow> string \<Rightarrow> fs \<Rightarrow> exn option \<times> fs" where
  "download_nothing video_url outtmpl fs = (None, fs(''/tmp/tmpk3x9'' \<mapsto> [''video.part'']))"

definition download_and_remove :: "string \<Rightarrow> string \<Rightarrow> fs \<Rightarrow> exn option \<times> fs" where
  "download_and_remove video_url outtmpl fs = (None, fs(''/tmp/tmpk3x9'' := None))"

definition whisper_hello :: "string \<Rightarrow> string \<Rightarrow> exn + string" where
  "whisper_hello audio_path model_size = Inr ''hello world''"

definition whisper_broken :: "string \<Rightarrow> string \<Rightarrow> exn + string" where
  "whisper_broken audio_path model_size = Inl (Exception ''out of memory'')"

text \<open>Captions exist; nothing else would work.\<close>

definition env_captions :: env where
  "env_captions =
     \<lparr>fetch = (\<lambda>video_id. Inr two_snippets), ydl_download = download_refused,
      whisper_transcribe = whisper_broken, temp_name = ''/tmp/tmpk3x9''\<rparr>"

text \<open>The captions are one snippet with no text; download and transcription work.\<close>

definition env_blank :: env where
  "env_blank =
     \<lparr>fetch = (\<lambda>video_id. Inr blank_snippet), ydl_download = download_webm,
      whisper_transcribe = whisper_hello, temp_name = ''/tmp/tmpk3x9''\<rparr>"

text \<open>The captions are an empty list of snippets; download and transcription work.\<close>

definition env_empty :: env where
  "env_empty =
     \<lparr>fetch = (\<lambda>video_id. Inr []), ydl_download = download_webm,
      whisper_transcribe = whisper_hello, temp_name = ''/tmp/tmpk3x9''\<rparr>"

text \<open>No captions; download and transcription work.\<close>

definition env_whisper :: env where
  "env_whisper =
     \<lparr>fetch = (\<lambda>video_id. Inl captions_disabled), ydl_download = download_webm,
      whisper_transcribe = whisper_hello, temp_name = ''/tmp/tmpk3x9''\<rparr>"

text \<open>No captions and the download fails.\<close>

definition env_refused :: env where
  "env_refused =
     \<lparr>fetch = (\<lambda>video_id. Inl captions_disabled), ydl_download = download_refused,
      whisper_transcribe = whisper_hello, temp_name = ''/tmp/tmpk3x9''\<rparr>"

text \<open>No captions; the download reports success and leaves no file that starts with
  \<^verbatim>\<open>audio\<close>.\<close>

definition env_missing :: env where
  "env_missing =
     \<lparr>fetch = (\<lambda>video_id. Inl captions_disabled), ydl_download = download_nothing,
      whisper_transcribe = whisper_hello, temp_name = ''/tmp/tmpk3x9''\<rparr>"

text \<open>No captions; the download reports success and has removed the directory, so that
  \<^verbatim>\<open>os.listdir\<close> raises.\<close>

definition env_removed :: env where
  "env_removed =
     \<lparr>fetch = (\<lambda>video_id. Inl captions_disabled), ydl_download = download_and_remove,
      whisper_transcribe = whisper_hello, temp_name = ''/tmp/tmpk3x9''\<rparr>"

text \<open>No captions; the download works and the transcription raises.\<close>

definition env_broken :: env where
  "env_broken =
     \<lparr>fetch = (\<lambda>video_id. Inl captions_disabled), ydl_download = download_webm,
      whisper_transcribe = whisper_broken, temp_name = ''/tmp/tmpk3x9''\<rparr>"

section \<open>Facts about the extractor\<close>

lemmas extract_defs = extract_video_id_def strip_params_def patterns_def group11_def
  is_id_char_def

lemmas pipeline_defs = generate_transcript_def pipeline_try_def with_temporary_directory_def
  with_body_def download_audio_def transcribe_with_whisper_def get_existing_transcript_def
  get_existing_transcript_try_def listdir_def show_captions_def show_whisper_def

lemmas env_defs = env_captions_def env_blank_def env_empty_def env_whisper_def env_refused_def
  env_missing_def env_removed_def env_broken_def fs0_def two_snippets_def blank_snippet_def
  captions_disabled_def download_refused_def download_webm_def download_nothing_def
  download_and_remove_def whisper_hello_def whisper_broken_def

lemma split_chr_nonempty: "split_chr sep s \<noteq> []"
  by (induction s) (auto split: list.splits)

lemma hd_split_chr: "hd (split_chr sep s) = takeWhile (\<lambda>c. c \<noteq> sep) s"
  by (induction s) (auto split: list.splits simp: split_chr_nonempty)

lemma takeWhile_twice: "takeWhile P (takeWhile Q s) = takeWhile (\<lambda>c. Q c \<and> P c) s"
  by (induction s) auto

lemma strip_params_takeWhile:
  "strip_params url =
     (if CHR ''?'' \<in> set url
      then takeWhile (\<lambda>c. c \<noteq> CHR ''&'' \<and> c \<noteq> CHR ''?'') url else url)"
  by (simp add: strip_params_def hd_split_chr takeWhile_twice)

lemma group11_Some: "group11 s = Some g \<Longrightarrow> length g = 11 \<and> list_all is_id_char g"
  by (auto simp: group11_def split: if_splits)

lemma match_here_Some:
  "match_here pat s = Some g \<Longrightarrow> length g = 11 \<and> list_all is_id_char g"
  by (induction pat) (auto split: if_splits option.splits dest: group11_Some)

lemma re_search_Some:
  "re_search pat s = Some g \<Longrightarrow> length g = 11 \<and> list_all is_id_char g"
  by (induction s) (auto split: option.splits dest: match_here_Some)

lemma first_match_Some:
  "first_match pats s = Some g \<Longrightarrow> length g = 11 \<and> list_all is_id_char g"
  by (induction pats) (auto split: option.splits if_splits dest: re_search_Some)

lemma extract_Some_nonempty: "extract_video_id url = Some v \<Longrightarrow> v \<noteq> []"
  by (auto simp: extract_video_id_def dest: first_match_Some)

lemma extract_Nil: "extract_video_id [] = None"
  by (simp add: extract_defs)

lemma extract_Some_url_nonempty: "extract_video_id video_url = Some v \<Longrightarrow> video_url \<noteq> []"
  using extract_Nil by auto

lemma extract_youtu_be: "extract_video_id ''https://youtu.be/LadcLQIKbNY'' = Some ''LadcLQIKbNY''"
  by (simp add: extract_defs)

lemma extract_not_a_url: "extract_video_id ''not a url'' = None"
  by (simp add: extract_defs)

text \<open>The example of the specification: a \<^verbatim>\<open>youtu.be\<close> link with a query is recognised.\<close>

lemma extract_youtu_be_query:
  "extract_video_id ''https://youtu.be/LadcLQIKbNY?si=abc'' = Some ''LadcLQIKbNY''"
  by (simp add: extract_defs)

text \<open>An \<^verbatim>\<open>embed\<close> link with a query is recognised too.\<close>

lemma extract_embed_query:
  "extract_video_id ''https://www.youtube.com/embed/LadcLQIKbNY?start=5''
     = Some ''LadcLQIKbNY''"
  by (simp add: extract_defs)

text \<open>Whatever follows the first \<^verbatim>\<open>?\<close> of a URL plays no part in the result: the
  patterns only see what stands before the first \<^verbatim>\<open>?\<close> or \<^verbatim>\<open>&\<close>.\<close>

lemma extract_ignores_query:
  "extract_video_id (a @ CHR ''?'' # b)
     = first_match patterns (takeWhile (\<lambda>c. c \<noteq> CHR ''&'' \<and> c \<noteq> CHR ''?'') a)"
  by (simp add: extract_video_id_def strip_params_takeWhile takeWhile_tail)

text \<open>
  Claim C1. Every URL of the three supported shapes (\<^verbatim>\<open>watch?v=ID\<close>, \<^verbatim>\<open>youtu.be/ID\<close>,
  \<^verbatim>\<open>embed/ID\<close>) should give its eleven-character identifier. The function does not do so
  for the first shape: in a \<^verbatim>\<open>watch\<close> URL the identifier follows the \<^verbatim>\<open>?\<close>, and the
  first statement of the function cuts the URL at that \<^verbatim>\<open>?\<close> before any pattern is tried.
  On the ordinary link \<^verbatim>\<open>https://www.youtube.com/watch?v=LadcLQIKbNY\<close> the result is
  \<^verbatim>\<open>None\<close>.
\<close>

theorem watch_url_not_recognised:
  "extract_video_id ''https://www.youtube.com/watch?v=LadcLQIKbNY'' = None"
  by (simp add: extract_defs)

text \<open>
  Claim C2. For every input string, \<^verbatim>\<open>extract_video_id\<close> returns \<^verbatim>\<open>None\<close> or a string of
  exactly eleven characters, each of the class \<^verbatim>\<open>[0-9A-Za-z_-]\<close>.
\<close>

theorem extract_video_id_shape:
  "extract_video_id url = None \<or>
   (\<exists>v. extract_video_id url = Some v \<and> length v = 11 \<and> list_all is_id_char v)"
  by (cases "extract_video_id url") (auto simp: extract_video_id_def dest: first_match_Some)

text \<open>
  Claim C10. The first statement of \<^verbatim>\<open>extract_video_id\<close> treats the two separators
  differently. A URL without \<^verbatim>\<open>?\<close> is left as it is, also when it contains \<^verbatim>\<open>&\<close>. A URL
  with a \<^verbatim>\<open>?\<close> is cut at its first \<^verbatim>\<open>&\<close> and the result at its first \<^verbatim>\<open>?\<close>, which is
  the same as cutting the URL at the first character that is one of the two.
\<close>

theorem strip_params_asymmetric:
  "(CHR ''?'' \<notin> set url \<longrightarrow> strip_params url = url) \<and>
   (CHR ''?'' \<in> set url \<longrightarrow>
      strip_params url
        = takeWhile (\<lambda>c. c \<noteq> CHR ''?'') (takeWhile (\<lambda>c. c \<noteq> CHR ''&'') url) \<and>
      strip_params url = takeWhile (\<lambda>c. c \<noteq> CHR ''&'' \<and> c \<noteq> CHR ''?'') url)"
  by (simp add: strip_params_def hd_split_chr takeWhile_twice)

theorem strip_params_asymmetric_witness:
  "strip_params ''a/bcd&e=f'' = ''a/bcd&e=f'' \<and> strip_params ''a?b&c'' = ''a''
   \<and> strip_params ''a&b?c'' = ''a''"
  using strip_params_asymmetric [of "''a/bcd&e=f''"] strip_params_asymmetric [of "''a?b&c''"]
    strip_params_asymmetric [of "''a&b?c''"]
  by simp

section \<open>Facts about the stage functions and the pipeline\<close>

lemma stages_Nil: "stages [] = []"
  by (simp add: stages_def map_filter_simps)

lemma stages_Cons:
  "stages (e # tr) = (case stage_of e of None \<Rightarrow> stages tr | Some s \<Rightarrow> s # stages tr)"
  by (simp add: stages_def map_filter_simps split: option.splits)

lemma stages_append: "stages (a @ b) = stages a @ stages b"
  by (induction a) (auto simp: stages_Nil stages_Cons split: option.splits)

lemma get_existing_transcript_returns:
  "\<exists>r. fst (get_existing_transcript env video_url) = Inr r"
  by (auto simp: get_existing_transcript_def get_existing_transcript_try_def
      split: option.splits sum.splits)

lemma captions_returned:
  assumes "extract_video_id video_url = Some video_id" "fetch env video_id = Inr raw_data"
  shows "get_existing_transcript env video_url =
           (Inr (Some (join [CHR 0x0A] (map snippet_text raw_data)), ''captions''),
            [Get_existing_transcript video_url, Fetch video_id])"
  using assms extract_Some_nonempty [OF assms(1)]
  by (simp add: get_existing_transcript_def get_existing_transcript_try_def)

lemma captions_stage_trace:
  "stages (snd (get_existing_transcript env video_url)) = [CheckingCaptions]"
  by (auto simp: get_existing_transcript_def get_existing_transcript_try_def stages_Cons
      stages_Nil split: option.splits sum.splits)


lemma captions_trace_cases:
  "snd (get_existing_transcript env video_url) = [Get_existing_transcript video_url]
   \<or> (\<exists>v. extract_video_id video_url = Some v
          \<and> snd (get_existing_transcript env video_url)
              = [Get_existing_transcript video_url, Fetch v])"
  by (auto simp: get_existing_transcript_def get_existing_transcript_try_def
      split: option.splits sum.splits)

lemma captions_trace_quiet:
  "\<not> list_ex is_error (snd (get_existing_transcript env video_url))"
  "\<not> list_ex is_success (snd (get_existing_transcript env video_url))"
  "Whisper_transcribe p m \<notin> set (snd (get_existing_transcript env video_url))"
  "Ydl_download u q \<notin> set (snd (get_existing_transcript env video_url))"
  using captions_trace_cases [of env video_url] by auto

lemma with_body_cases:
  fixes env u m d fs
  defines "P \<equiv> path_join d ''audio.%(ext)s''"
  defines "tr2 \<equiv> [Download_audio u P, Ydl_download u P,
                    Status ''Transcribing with Whisper AI...'', Progress 70, Listdir d]"
  obtains
    (refused) e fs1 where
      "ydl_download env u P fs = (Some e, fs1)"
      "with_body env u m d fs =
         (None, [Download_audio u P, Ydl_download u P,
                 St_error (''Audio download failed: '' @ message e),
                 St_error ''Failed to download video audio''], fs1)"
  | (nodir) fs1 where
      "ydl_download env u P fs = (None, fs1)" "fs1 d = None"
      "with_body env u m d fs =
         (Some (Exception (''[Errno 2] No such file or directory: '' @ d)), tr2, fs1)"
  | (nofile) fs1 names where
      "ydl_download env u P fs = (None, fs1)" "fs1 d = Some names"
      "filter (\<lambda>f. startswith f ''audio'') names = []"
      "with_body env u m d fs =
         (None, tr2 @ [St_error ''Audio file not found after download''], fs1)"
  | (transcribed) fs1 names a t where
      "ydl_download env u P fs = (None, fs1)" "fs1 d = Some names"
      "hd (filter (\<lambda>f. startswith f ''audio'') names) = a"
      "whisper_transcribe env (path_join d a) m = Inr t" "t \<noteq> []"
      "with_body env u m d fs =
         (None, tr2 @ [Transcribe_with_whisper (path_join d a) m,
                       Whisper_transcribe (path_join d a) m] @ show_whisper u m t, fs1)"
  | (untranscribed) fs1 names a where
      "ydl_download env u P fs = (None, fs1)" "fs1 d = Some names"
      "hd (filter (\<lambda>f. startswith f ''audio'') names) = a"
      "\<forall>t. whisper_transcribe env (path_join d a) m = Inr t \<longrightarrow> t = []"
      "with_body env u m d fs =
         (None, tr2 @ [Transcribe_with_whisper (path_join d a) m,
                       Whisper_transcribe (path_join d a) m,
                       St_error ''Failed to transcribe audio''], fs1)"
proof -
  obtain r fs1 where dl: "ydl_download env u P fs = (r, fs1)"
    by (cases "ydl_download env u P fs")
  show thesis
  proof (cases r)
    case (Some e)
    with dl have "with_body env u m d fs =
         (None, [Download_audio u P, Ydl_download u P,
                 St_error (''Audio download failed: '' @ message e),
                 St_error ''Failed to download video audio''], fs1)"
      by (simp add: Let_def with_body_def download_audio_def P_def)
    with dl Some show thesis by (intro refused) auto
  next
    case None
    note r = this
    show thesis
    proof (cases "fs1 d")
      case None
      with dl r have "with_body env u m d fs =
         (Some (Exception (''[Errno 2] No such file or directory: '' @ d)), tr2, fs1)"
        by (simp add: Let_def with_body_def download_audio_def listdir_def P_def tr2_def)
      with dl r None show thesis by (intro nodir) auto
    next
      case (Some names)
      note names = this
      show thesis
      proof (cases "filter (\<lambda>f. startswith f ''audio'') names = []")
        case True
        with dl r names have "with_body env u m d fs =
           (None, tr2 @ [St_error ''Audio file not found after download''], fs1)"
          by (simp add: Let_def with_body_def download_audio_def listdir_def P_def tr2_def)
        with dl r names True show thesis by (intro nofile) auto
      next
        case False
        define a where "a = hd (filter (\<lambda>f. startswith f ''audio'') names)"
        show thesis
        proof (cases "\<exists>t. whisper_transcribe env (path_join d a) m = Inr t \<and> t \<noteq> []")
          case True
          then obtain t where t: "whisper_transcribe env (path_join d a) m = Inr t" "t \<noteq> []"
            by blast
          with dl r names False have "with_body env u m d fs =
             (None, tr2 @ [Transcribe_with_whisper (path_join d a) m,
                       Whisper_transcribe (path_join d a) m] @ show_whisper u m t, fs1)"
            by (simp add: Let_def with_body_def download_audio_def listdir_def
                transcribe_with_whisper_def P_def tr2_def a_def)
          with dl r names t a_def show thesis by (intro transcribed) auto
        next
          case no: False
          with dl r names False have "with_body env u m d fs =
             (None, tr2 @ [Transcribe_with_whisper (path_join d a) m,
                       Whisper_transcribe (path_join d a) m,
                       St_error ''Failed to transcribe audio''], fs1)"
            by (cases "whisper_transcribe env (path_join d a) m")
               (auto simp add: Let_def with_body_def download_audio_def listdir_def
                transcribe_with_whisper_def P_def tr2_def a_def)
          with dl r names no a_def show thesis by (intro untranscribed) auto
        qed
      qed
    qed
  qed
qed

lemma generate_captions:
  assumes "video_url \<noteq> []" "captions_ok env video_url"
  shows "\<exists>t. t \<noteq> [] \<and> fst (get_existing_transcript env video_url) = Inr (Some t, ''captions'')
           \<and> generate_transcript env video_url m fs =
              ([Status ''Checking for existing captions...'', Progress 20]
               @ snd (get_existing_transcript env video_url)
               @ show_captions video_url t @ [Empty_indicators], fs)"
proof -
  obtain res trc where g: "get_existing_transcript env video_url = (res, trc)"
    by (cases "get_existing_transcript env video_url")
  with assms(2) obtain t where "res = Inr (Some t, ''captions'')" "t \<noteq> []"
    by (cases res; cases "fst (projr res)") (auto simp: captions_ok_def)
  with g assms(1) show ?thesis
    by (simp add: generate_transcript_def pipeline_try_def)
qed

lemma generate_fallback:
  assumes "video_url \<noteq> []" "\<not> captions_ok env video_url"
    and "with_body env video_url m (temp_name env) (fs(temp_name env \<mapsto> [])) = (r, tr, fs1)"
  shows "generate_transcript env video_url m fs =
           ([Status ''Checking for existing captions...'', Progress 20]
            @ snd (get_existing_transcript env video_url)
            @ [Status ''No captions found. Downloading audio...'', Progress 40,
               Mkdtemp (temp_name env)]
            @ tr @ [Cleanup (temp_name env)]
            @ (case r of None \<Rightarrow> []
               | Some e \<Rightarrow> [St_error (''An error occurred: '' @ message e)])
            @ [Empty_indicators],
            rmtree (temp_name env) fs1)"
proof -
  obtain res trc where g: "get_existing_transcript env video_url = (res, trc)"
    by (cases "get_existing_transcript env video_url")
  from get_existing_transcript_returns [of env video_url] g obtain t meth
    where res: "res = Inr (t, meth)" by (cases res) auto
  with g assms(2) have "\<not> (truthy t \<and> meth = ''captions'')"
    by (simp add: captions_ok_def)
  with g res assms(1,3) show ?thesis
    by (cases r) (auto simp: generate_transcript_def pipeline_try_def
        with_temporary_directory_def)
qed


lemma fallback_reaches_download:
  assumes "video_url \<noteq> []" "\<not> captions_ok env video_url"
  shows "take 2 (stages (fst (generate_transcript env video_url m fs)))
           = [CheckingCaptions, DownloadingAudio]"
    and "Ydl_download video_url (audio_template env)
           \<in> set (fst (generate_transcript env video_url m fs))"
    and "Fetch v \<in> set (fst (generate_transcript env video_url m fs))
           \<longrightarrow> Fetch v \<in> set (snd (get_existing_transcript env video_url))"
    and "Mkdtemp (temp_name env) \<in> set (fst (generate_transcript env video_url m fs))"
    and "Cleanup (temp_name env) \<in> set (fst (generate_transcript env video_url m fs))"
    and "\<exists>fs1. snd (generate_transcript env video_url m fs) = rmtree (temp_name env) fs1"
proof -
  note fb = generate_fallback [OF assms]
  have "take 2 (stages (fst (generate_transcript env video_url m fs)))
           = [CheckingCaptions, DownloadingAudio]
       \<and> Ydl_download video_url (audio_template env)
           \<in> set (fst (generate_transcript env video_url m fs))
       \<and> (Fetch v \<in> set (fst (generate_transcript env video_url m fs))
           \<longrightarrow> Fetch v \<in> set (snd (get_existing_transcript env video_url)))
       \<and> Mkdtemp (temp_name env) \<in> set (fst (generate_transcript env video_url m fs))
       \<and> Cleanup (temp_name env) \<in> set (fst (generate_transcript env video_url m fs))
       \<and> (\<exists>fs1. snd (generate_transcript env video_url m fs) = rmtree (temp_name env) fs1)"
  proof (cases rule: with_body_cases [where env = env and u = video_url and m = m
        and d = "temp_name env" and fs = "fs(temp_name env \<mapsto> [])"])
    case (refused e fs1)
    from fb [OF refused(2)] show ?thesis
      by (auto simp add: stages_append stages_Cons stages_Nil captions_stage_trace
          audio_template_def)
  next
    case (nodir fs1)
    from fb [OF nodir(3)] show ?thesis
      by (auto simp add: stages_append stages_Cons stages_Nil captions_stage_trace
          audio_template_def)
  next
    case (nofile fs1 names)
    from fb [OF nofile(4)] show ?thesis
      by (auto simp add: stages_append stages_Cons stages_Nil captions_stage_trace
          audio_template_def)
  next
    case (transcribed fs1 names a t)
    from fb [OF transcribed(6)] show ?thesis
      by (auto simp add: stages_append stages_Cons stages_Nil captions_stage_trace
          audio_template_def show_whisper_def)
  next
    case (untranscribed fs1 names a)
    from fb [OF untranscribed(5)] show ?thesis
      by (auto simp add: stages_append stages_Cons stages_Nil captions_stage_trace
          audio_template_def)
  qed
  then show "take 2 (stages (fst (generate_transcript env video_url m fs)))
           = [CheckingCaptions, DownloadingAudio]"
    and "Ydl_download video_url (audio_template env)
           \<in> set (fst (generate_transcript env video_url m fs))"
    and "Fetch v \<in> set (fst (generate_transcript env video_url m fs))
           \<longrightarrow> Fetch v \<in> set (snd (get_existing_transcript env video_url))"
    and "Mkdtemp (temp_name env) \<in> set (fst (generate_transcript env video_url m fs))"
    and "Cleanup (temp_name env) \<in> set (fst (generate_transcript env video_url m fs))"
    and "\<exists>fs1. snd (generate_transcript env video_url m fs) = rmtree (temp_name env) fs1"
    by blast+
qed

lemma rmtree_gone: "rmtree d fs d = None" "prefix (d @ ''/'') p \<Longrightarrow> rmtree d fs p = None"
  by (simp_all add: rmtree_def)

section \<open>The captions stage\<close>

text \<open>
  Claim C3 (as amended). When the identifier is extracted and the captions library
  returns its snippets, \<^verbatim>\<open>get_existing_transcript\<close> returns the texts of all snippets, in
  order, joined by newlines, with the method \<^verbatim>\<open>captions\<close>. When that text is not empty, the
  run calls no stage but the captions stage and no collaborator but the captions library:
  the audio is never downloaded.
\<close>

theorem captions_found_no_download:
  assumes "extract_video_id video_url = Some video_id" "fetch env video_id = Inr raw_data"
  shows "fst (get_existing_transcript env video_url)
           = Inr (Some (join [CHR 0x0A] (map snippet_text raw_data)), ''captions'')
       \<and> (join [CHR 0x0A] (map snippet_text raw_data) \<noteq> [] \<longrightarrow>
            stages (fst (generate_transcript env video_url m fs)) = [CheckingCaptions]
            \<and> filter is_collaborator_call (fst (generate_transcript env video_url m fs))
                = [Fetch video_id])"
proof -
  note g = captions_returned [OF assms]
  have "stages (fst (generate_transcript env video_url m fs)) = [CheckingCaptions]
        \<and> filter is_collaborator_call (fst (generate_transcript env video_url m fs))
            = [Fetch video_id]"
    if ne: "join [CHR 0x0A] (map snippet_text raw_data) \<noteq> []"
  proof -
    from g ne have ok: "captions_ok env video_url"
      by (simp add: captions_ok_def)
    from generate_captions [OF extract_Some_url_nonempty [OF assms(1)] ok, of m fs] g
    show ?thesis
      by (auto simp: stages_append stages_Cons stages_Nil show_captions_def)
  qed
  with g show ?thesis by simp
qed

theorem captions_found_no_download_witness:
  "fst (get_existing_transcript env_captions ''https://youtu.be/LadcLQIKbNY'')
     = Inr (Some [CHR ''h'', CHR ''e'', CHR ''l'', CHR ''l'', CHR ''o'', CHR 0x0A,
                  CHR ''w'', CHR ''o'', CHR ''r'', CHR ''l'', CHR ''d''], ''captions'')
   \<and> stages (fst (generate_transcript env_captions ''https://youtu.be/LadcLQIKbNY'' ''base'' fs0))
       = [CheckingCaptions]"
  using captions_found_no_download [where video_url = "''https://youtu.be/LadcLQIKbNY''"
      and video_id = "''LadcLQIKbNY''" and env = env_captions and raw_data = two_snippets
      and m = "''base''" and fs = fs0]
  by (simp add: extract_youtu_be env_captions_def two_snippets_def)

text \<open>
  Claim C3 as stated fails: when the captions library returns one snippet whose text is
  empty, the joined text is empty, the guard \<^verbatim>\<open>if transcript and method == "captions"\<close> is
  false, and the run goes on to download the audio.
\<close>

theorem captions_blank_snippet_counterexample:
  "\<not> (extract_video_id ''https://youtu.be/LadcLQIKbNY'' = Some ''LadcLQIKbNY''
        \<and> fetch env_blank ''LadcLQIKbNY'' = Inr blank_snippet \<and> 1 \<le> length blank_snippet
      \<longrightarrow> fst (get_existing_transcript env_blank ''https://youtu.be/LadcLQIKbNY'')
            = Inr (Some (join [CHR 0x0A] (map snippet_text blank_snippet)), ''captions'')
          \<and> DownloadingAudio \<notin> set (stages (fst (generate_transcript env_blank
                ''https://youtu.be/LadcLQIKbNY'' ''base'' fs0))))"
  by (simp add: extract_youtu_be env_blank_def blank_snippet_def fs0_def download_webm_def
      whisper_hello_def Let_def pipeline_defs path_join_def stages_Cons stages_Nil)

text \<open>
  Claim C4 (as amended). When no identifier can be extracted from the URL,
  \<^verbatim>\<open>get_existing_transcript\<close> returns \<^verbatim>\<open>(None, "Invalid URL")\<close> and has not called the
  captions library, and no run calls the captions library for that URL. A run on such a URL
  does not stop there: if the URL is not empty it goes on to the download stage and calls the
  download library with the URL as typed; if the URL is empty it only shows
  \<^verbatim>\<open>Please enter a YouTube URL\<close>.
\<close>

theorem invalid_url_falls_through:
  assumes "extract_video_id video_url = None"
  shows "get_existing_transcript env video_url
           = (Inr (None, ''Invalid URL''), [Get_existing_transcript video_url])
       \<and> Fetch v \<notin> set (fst (generate_transcript env video_url m fs))
       \<and> (video_url \<noteq> [] \<longrightarrow>
            take 2 (stages (fst (generate_transcript env video_url m fs)))
              = [CheckingCaptions, DownloadingAudio]
            \<and> Ydl_download video_url (audio_template env)
                \<in> set (fst (generate_transcript env video_url m fs)))
       \<and> (video_url = [] \<longrightarrow>
            fst (generate_transcript env video_url m fs)
              = [St_error ''Please enter a YouTube URL''])"
proof -
  from assms have g: "get_existing_transcript env video_url
           = (Inr (None, ''Invalid URL''), [Get_existing_transcript video_url])"
    by (simp add: get_existing_transcript_def get_existing_transcript_try_def)
  then have nok: "\<not> captions_ok env video_url"
    by (simp add: captions_ok_def)
  show ?thesis
  proof (cases "video_url = []")
    case True
    with g show ?thesis by (simp add: generate_transcript_def)
  next
    case False
    from fallback_reaches_download(1,2) [OF False nok, where m = m and fs = fs]
      fallback_reaches_download(3) [OF False nok, where m = m and fs = fs and v = v] g False
    show ?thesis by auto
  qed
qed

theorem invalid_url_falls_through_witness:
  "get_existing_transcript env_refused ''not a url''
     = (Inr (None, ''Invalid URL''), [Get_existing_transcript ''not a url''])
   \<and> Ydl_download ''not a url'' ''/tmp/tmpk3x9/audio.%(ext)s''
       \<in> set (fst (generate_transcript env_refused ''not a url'' ''base'' fs0))"
  using invalid_url_falls_through [where video_url = "''not a url''" and env = env_refused
      and m = "''base''" and fs = fs0]
  by (simp add: extract_not_a_url audio_template_def env_refused_def path_join_def)

text \<open>
  Claim C4 as stated fails: on \<^verbatim>\<open>not a url\<close>, with a download library and a speech model
  that work, the run calls both of them and ends with a transcript, not in a failure.
\<close>

theorem invalid_url_counterexample:
  "\<not> (extract_video_id ''not a url'' = None
      \<longrightarrow> fst (get_existing_transcript env_whisper ''not a url'') = Inr (None, ''Invalid URL'')
          \<and> failed (fst (generate_transcript env_whisper ''not a url'' ''base'' fs0))
          \<and> \<not> list_ex is_collaborator_call
                (fst (generate_transcript env_whisper ''not a url'' ''base'' fs0)))"
  by (simp add: extract_not_a_url env_whisper_def fs0_def download_webm_def
      whisper_hello_def Let_def pipeline_defs path_join_def failed_def)

text \<open>
  Claim C5. \<^verbatim>\<open>get_existing_transcript\<close> never raises: whatever the captions library does,
  the function returns a value. When the library raises an exception with message \<open>msg\<close>,
  the function returns \<^verbatim>\<open>(None, "No captions: " + msg)\<close>.
\<close>

theorem captions_exception_caught:
  "(\<exists>r. fst (get_existing_transcript env video_url) = Inr r) \<and>
   (extract_video_id video_url = Some video_id \<longrightarrow> fetch env video_id = Inl e \<longrightarrow>
      get_existing_transcript env video_url =
        (Inr (None, ''No captions: '' @ message e),
         [Get_existing_transcript video_url, Fetch video_id]))"
  by (auto simp: get_existing_transcript_def get_existing_transcript_try_def
      split: option.splits sum.splits dest: extract_Some_nonempty)

theorem captions_exception_caught_witness:
  "get_existing_transcript env_refused ''https://youtu.be/LadcLQIKbNY'' =
     (Inr (None, ''No captions: Subtitles are disabled for this video''),
      [Get_existing_transcript ''https://youtu.be/LadcLQIKbNY'', Fetch ''LadcLQIKbNY''])"
  using captions_exception_caught [where env = env_refused
      and video_url = "''https://youtu.be/LadcLQIKbNY''" and video_id = "''LadcLQIKbNY''"
      and e = captions_disabled]
  by (simp add: extract_youtu_be env_refused_def captions_disabled_def)

text \<open>
  Claim C9. When the captions library succeeds with no snippet at all,
  \<^verbatim>\<open>get_existing_transcript\<close> returns the empty string with the method \<^verbatim>\<open>captions\<close>; the
  guard of the pipeline is then false, and the run goes on to the download stage and calls
  the download library.
\<close>

theorem empty_captions_fall_through:
  assumes "extract_video_id video_url = Some video_id" "fetch env video_id = Inr []"
  shows "fst (get_existing_transcript env video_url) = Inr (Some [], ''captions'')
       \<and> \<not> captions_ok env video_url
       \<and> take 2 (stages (fst (generate_transcript env video_url m fs)))
           = [CheckingCaptions, DownloadingAudio]
       \<and> Ydl_download video_url (audio_template env)
           \<in> set (fst (generate_transcript env video_url m fs))"
proof -
  from captions_returned [OF assms]
  have g: "fst (get_existing_transcript env video_url) = Inr (Some [], ''captions'')"
    by simp
  then have nok: "\<not> captions_ok env video_url"
    by (simp add: captions_ok_def)
  from fallback_reaches_download(1,2) [OF extract_Some_url_nonempty [OF assms(1)] nok,
      where m = m and fs = fs]
    g nok
  show ?thesis by simp
qed

theorem empty_captions_fall_through_witness:
  "fst (get_existing_transcript env_empty ''https://youtu.be/LadcLQIKbNY'')
     = Inr (Some [], ''captions'')
   \<and> stages (fst (generate_transcript env_empty ''https://youtu.be/LadcLQIKbNY'' ''base'' fs0))
       = [CheckingCaptions, DownloadingAudio, Transcribing]"
  using empty_captions_fall_through [where video_url = "''https://youtu.be/LadcLQIKbNY''"
      and video_id = "''LadcLQIKbNY''" and env = env_empty and m = "''base''" and fs = fs0]
  by (simp add: extract_youtu_be env_empty_def fs0_def download_webm_def
      whisper_hello_def Let_def pipeline_defs path_join_def stages_Cons stages_Nil)

section \<open>The order of the stages\<close>

text \<open>
  Claim C6. In every run on a URL that is not empty, the stages are called one after the
  other in the order captions, download, transcription, each at most once: the calls are
  the captions stage alone, or the captions stage and the download stage, or all three.
  The download stage is called exactly once when the guard on the captions fails and not at
  all when it holds. The transcription stage is called only after a download that raised
  nothing. When the download raises, the run ends failed after the download stage; when the
  speech model raises or gives no text, the run ends failed after the transcription stage;
  neither stage is called again and no other stage is tried. (On the empty URL no stage is
  called.)
\<close>

theorem pipeline_sequential:
  assumes "video_url \<noteq> []"
  shows "(stages (fst (generate_transcript env video_url m fs)) = [CheckingCaptions]
          \<or> stages (fst (generate_transcript env video_url m fs))
              = [CheckingCaptions, DownloadingAudio]
          \<or> stages (fst (generate_transcript env video_url m fs))
              = [CheckingCaptions, DownloadingAudio, Transcribing])
       \<and> count_list (stages (fst (generate_transcript env video_url m fs))) DownloadingAudio
           = (if captions_ok env video_url then 0 else 1)
       \<and> (Transcribing \<in> set (stages (fst (generate_transcript env video_url m fs)))
            \<longrightarrow> fst (download_result env video_url fs) = None)
       \<and> (\<not> captions_ok env video_url \<and> fst (download_result env video_url fs) \<noteq> None
            \<longrightarrow> stages (fst (generate_transcript env video_url m fs))
                  = [CheckingCaptions, DownloadingAudio]
                \<and> failed (fst (generate_transcript env video_url m fs)))
       \<and> (Whisper_transcribe p m \<in> set (fst (generate_transcript env video_url m fs))
            \<and> (\<forall>t. whisper_transcribe env p m = Inr t \<longrightarrow> t = [])
            \<longrightarrow> stages (fst (generate_transcript env video_url m fs))
                  = [CheckingCaptions, DownloadingAudio, Transcribing]
                \<and> failed (fst (generate_transcript env video_url m fs)))"
proof (cases "captions_ok env video_url")
  case True
  from generate_captions [OF assms True, of m fs] obtain t where
    "generate_transcript env video_url m fs =
       ([Status ''Checking for existing captions...'', Progress 20]
        @ snd (get_existing_transcript env video_url)
        @ show_captions video_url t @ [Empty_indicators], fs)"
    by blast
  with True show ?thesis
    by (simp add: stages_append stages_Cons stages_Nil captions_stage_trace
        captions_trace_quiet show_captions_def)
next
  case False
  note fb = generate_fallback [OF assms False]
  show ?thesis
  proof (cases rule: with_body_cases [where env = env and u = video_url and m = m
        and d = "temp_name env" and fs = "fs(temp_name env \<mapsto> [])"])
    case (refused e fs1)
    from fb [OF refused(2)] refused(1) False show ?thesis
      by (simp add: stages_append stages_Cons stages_Nil captions_stage_trace
          captions_trace_quiet download_result_def audio_template_def failed_def)
  next
    case (nodir fs1)
    from fb [OF nodir(3)] nodir(1) False show ?thesis
      by (simp add: stages_append stages_Cons stages_Nil captions_stage_trace
          captions_trace_quiet download_result_def audio_template_def failed_def)
  next
    case (nofile fs1 names)
    from fb [OF nofile(4)] nofile(1) False show ?thesis
      by (simp add: stages_append stages_Cons stages_Nil captions_stage_trace
          captions_trace_quiet download_result_def audio_template_def failed_def)
  next
    case (transcribed fs1 names a t)
    from fb [OF transcribed(6)] transcribed(1,4,5) False show ?thesis
      by (auto simp add: stages_append stages_Cons stages_Nil captions_stage_trace
          captions_trace_quiet download_result_def audio_template_def failed_def
          show_whisper_def)
  next
    case (untranscribed fs1 names a)
    from fb [OF untranscribed(5)] untranscribed(1,4) False show ?thesis
      by (simp add: stages_append stages_Cons stages_Nil captions_stage_trace
          captions_trace_quiet download_result_def audio_template_def failed_def)
  qed
qed

theorem pipeline_sequential_witness:
  "stages (fst (generate_transcript env_broken ''https://youtu.be/LadcLQIKbNY'' ''base'' fs0))
     = [CheckingCaptions, DownloadingAudio, Transcribing]
   \<and> failed (fst (generate_transcript env_broken ''https://youtu.be/LadcLQIKbNY'' ''base'' fs0))
   \<and> stages (fst (generate_transcript env_refused ''https://youtu.be/LadcLQIKbNY'' ''base'' fs0))
     = [CheckingCaptions, DownloadingAudio]
   \<and> failed (fst (generate_transcript env_refused ''https://youtu.be/LadcLQIKbNY'' ''base'' fs0))
   \<and> stages (fst (generate_transcript env_captions ''https://youtu.be/LadcLQIKbNY'' ''base'' fs0))
     = [CheckingCaptions]"
  using pipeline_sequential [where video_url = "''https://youtu.be/LadcLQIKbNY''"
      and env = env_broken and m = "''base''" and fs = fs0 and p = "''/tmp/tmpk3x9/audio.webm''"]
    pipeline_sequential [where video_url = "''https://youtu.be/LadcLQIKbNY''"
      and env = env_refused and m = "''base''" and fs = fs0 and p = "''/tmp/tmpk3x9/audio.webm''"]
    pipeline_sequential [where video_url = "''https://youtu.be/LadcLQIKbNY''"
      and env = env_captions and m = "''base''" and fs = fs0 and p = "''/tmp/tmpk3x9/audio.webm''"]
  by (simp add: extract_youtu_be env_defs Let_def pipeline_defs path_join_def stages_Cons stages_Nil
      failed_def)

text \<open>
  Claim C7. When the guard on the captions fails, the download raises nothing,
  \<^verbatim>\<open>os.listdir\<close> lists the temporary directory and no name in it starts with \<^verbatim>\<open>audio\<close>,
  the run shows \<^verbatim>\<open>Audio file not found after download\<close>, ends failed, and neither the
  transcription stage nor the speech model is called.
\<close>

theorem audio_file_missing:
  assumes "video_url \<noteq> []" "\<not> captions_ok env video_url"
    and "download_result env video_url fs = (None, fs_after)"
    and "listdir fs_after (temp_name env) = Inr names"
    and "\<not> list_ex (\<lambda>f. startswith f ''audio'') names"
  shows "St_error ''Audio file not found after download''
           \<in> set (fst (generate_transcript env video_url m fs))
       \<and> failed (fst (generate_transcript env video_url m fs))
       \<and> stages (fst (generate_transcript env video_url m fs))
           = [CheckingCaptions, DownloadingAudio]
       \<and> Whisper_transcribe p m' \<notin> set (fst (generate_transcript env video_url m fs))"
proof -
  from assms(4) have dir: "fs_after (temp_name env) = Some names"
    by (simp add: listdir_def split: option.splits)
  from assms(5) have none: "filter (\<lambda>f. startswith f ''audio'') names = []"
    by (simp add: list_ex_iff filter_empty_conv)
  from assms(3) dir none
  have "with_body env video_url m (temp_name env) (fs(temp_name env \<mapsto> [])) =
         (None, [Download_audio video_url (audio_template env),
                 Ydl_download video_url (audio_template env),
                 Status ''Transcribing with Whisper AI...'', Progress 70,
                 Listdir (temp_name env),
                 St_error ''Audio file not found after download''], fs_after)"
    by (simp add: Let_def with_body_def download_audio_def listdir_def download_result_def
        audio_template_def)
  from generate_fallback [OF assms(1,2) this] show ?thesis
    by (simp add: stages_append stages_Cons stages_Nil captions_stage_trace
        captions_trace_quiet failed_def)
qed

theorem audio_file_missing_witness:
  "St_error ''Audio file not found after download''
     \<in> set (fst (generate_transcript env_missing ''https://youtu.be/LadcLQIKbNY'' ''base'' fs0))
   \<and> stages (fst (generate_transcript env_missing ''https://youtu.be/LadcLQIKbNY'' ''base'' fs0))
       = [CheckingCaptions, DownloadingAudio]"
  using audio_file_missing [where video_url = "''https://youtu.be/LadcLQIKbNY''"
      and env = env_missing and fs = fs0 and fs_after = "fs0(''/tmp/tmpk3x9'' \<mapsto> [''video.part''])"
      and names = "[''video.part'']" and m = "''base''"]
  by (simp add: captions_ok_def get_existing_transcript_def get_existing_transcript_try_def
      extract_youtu_be env_missing_def download_result_def download_nothing_def listdir_def
      fs0_def)

section \<open>The temporary directory\<close>

text \<open>
  Claim C8. Every run that enters the download path (the URL is not empty and the guard on
  the captions fails) creates the temporary directory and removes it before it ends:
  when the run is over, neither the directory nor any path below it exists, whatever the
  download library and the speech model did and also when an exception left the
  \<^verbatim>\<open>with\<close> block.
\<close>

theorem temp_dir_removed:
  assumes "video_url \<noteq> []" "\<not> captions_ok env video_url"
  shows "Mkdtemp (temp_name env) \<in> set (fst (generate_transcript env video_url m fs))
       \<and> Cleanup (temp_name env) \<in> set (fst (generate_transcript env video_url m fs))
       \<and> snd (generate_transcript env video_url m fs) (temp_name env) = None
       \<and> (prefix (temp_name env @ ''/'') p
            \<longrightarrow> snd (generate_transcript env video_url m fs) p = None)"
  using fallback_reaches_download(4,5,6) [OF assms, where m = m and fs = fs]
  by (auto simp: rmtree_gone)

theorem temp_dir_removed_witness:
  "snd (generate_transcript env_whisper ''https://youtu.be/LadcLQIKbNY'' ''base'' fs0)
       ''/tmp/tmpk3x9'' = None
   \<and> snd (generate_transcript env_refused ''https://youtu.be/LadcLQIKbNY'' ''base'' fs0)
       ''/tmp/tmpk3x9'' = None
   \<and> snd (generate_transcript env_removed ''https://youtu.be/LadcLQIKbNY'' ''base'' fs0)
       ''/tmp/tmpk3x9'' = None"
  using temp_dir_removed [where video_url = "''https://youtu.be/LadcLQIKbNY''" and env = env_whisper
      and m = "''base''" and fs = fs0]
    temp_dir_removed [where video_url = "''https://youtu.be/LadcLQIKbNY''" and env = env_refused
      and m = "''base''" and fs = fs0]
    temp_dir_removed [where video_url = "''https://youtu.be/LadcLQIKbNY''" and env = env_removed
      and m = "''base''" and fs = fs0]
  by (simp add: captions_ok_def get_existing_transcript_def get_existing_transcript_try_def
      extract_youtu_be env_whisper_def env_refused_def env_removed_def)

end
